theory Spec2Isabelle
  imports Complex_Main
begin

section \<open>Numinix: mastery and progress analytics\<close>

text \<open>
  A shallow embedding of the analytics code of the Numinix repository:
  \<^verbatim>\<open>project/src/services/progressTrackingService.ts\<close> (class
  \<^verbatim>\<open>ProgressTrackingService\<close>) and
  \<^verbatim>\<open>project/src/services/diagnosticService.ts\<close> together with its later
  revision that talks to the Groq proxy.

  Conventions of the embedding.
  \<^item> A TypeScript interface is a record. Field names are global in HOL, so the fields
    of an interface carry a short prefix where two interfaces share a name
    (\<open>cd_\<close> for \<^verbatim>\<open>ChapterDiagnostic\<close>, \<open>cm_\<close> for
    \<^verbatim>\<open>ConceptMastery\<close>, \<open>qa_\<close> for \<^verbatim>\<open>QuestionAttempt\<close>, ...).
  \<^item> A JavaScript number that counts something is an \<open>int\<close> or a \<open>nat\<close>; a ratio
    or a percentage is an exact real number (\<open>real\<close>). Rounding of IEEE doubles is not
    modelled. The code divides only by a positive count, except where noted.
  \<^item> A string is the list of the bytes of its UTF-8 encoding (JavaScript strings are taken
    to be well formed); a template literal is a concatenation.
  \<^item> An optional field (\<^verbatim>\<open>concept?: string\<close>) is an \<open>option\<close>.
  \<^item> \<^verbatim>\<open>array.push(x)\<close> is \<open>push\<close>, and \<^verbatim>\<open>array.forEach\<close> is a left fold
    over the elements in order.
\<close>

subsection \<open>Arrays\<close>

definition push :: "'a list \<Rightarrow> 'a \<Rightarrow> 'a list" where
  "push xs x = xs @ [x]"

subsection \<open>Chapter diagnostics and the learning path\<close>

datatype difficulty_level = beginner | intermediate | advanced

record ChapterDiagnostic =
  cd_user_id :: string
  cd_chapter_id :: string
  cd_total_questions :: int
  cd_correct_answers :: int
  cd_score_percentage :: real
  cd_time_taken_minutes :: int
  cd_strengths :: "string list"
  cd_weaknesses :: "string list"
  cd_knowledge_gaps :: "string list"
  cd_prerequisite_concepts :: "string list"
  cd_difficulty_level :: difficulty_level
  cd_raw_responses :: string

text \<open>
  \<^verbatim>\<open>generateLearningSequence\<close>: the sequence starts empty and grows by
  \<^verbatim>\<open>push\<close> only.
\<close>

definition generateLearningSequence :: "ChapterDiagnostic \<Rightarrow> string list" where
  "generateLearningSequence diagnostic =
     (let sequence0 = [];
          sequence1 =
            (if length (cd_knowledge_gaps diagnostic) > 0
             then foldl (\<lambda>sequence concept. push sequence (''Master: '' @ concept))
                    (push sequence0 ''Review Prerequisites'')
                    (cd_prerequisite_concepts diagnostic)
             else sequence0);
          sequence2 =
            foldl (\<lambda>sequence weakness.
                     push (push sequence (''Focus on: '' @ weakness))
                          (''Practice: '' @ weakness @ '' Problems''))
              sequence1 (cd_weaknesses diagnostic);
          sequence3 = push sequence2 ''Core Chapter Concepts'';
          sequence4 = push sequence3 ''Advanced Applications'';
          sequence5 = push sequence4 ''Chapter Assessment''
      in sequence5)"

text \<open>
  \<^verbatim>\<open>estimateCompletionTime\<close>: \<^verbatim>\<open>baseDays\<close> is assigned four times, then
  capped.
\<close>

definition estimateCompletionTime :: "ChapterDiagnostic \<Rightarrow> int" where
  "estimateCompletionTime diagnostic =
     (let baseDays0 = 7;
          baseDays1 = baseDays0 + int (length (cd_weaknesses diagnostic)) * 2;
          baseDays2 = baseDays1 + int (length (cd_knowledge_gaps diagnostic)) * 3;
          baseDays3 =
            (if cd_score_percentage diagnostic < 30 then baseDays2 + 5
             else if cd_score_percentage diagnostic < 60 then baseDays2 + 3
             else baseDays2)
      in min baseDays3 21)"

text \<open>The score bonus of the specification, written from its words.\<close>

definition score_bonus :: "real \<Rightarrow> int" where
  "score_bonus score = (if score < 30 then 5 else if score < 60 then 3 else 0)"

definition example_diagnostic :: "string list \<Rightarrow> string list \<Rightarrow> real \<Rightarrow> ChapterDiagnostic" where
  "example_diagnostic weaknesses gaps score =
     \<lparr> cd_user_id = ''u1'', cd_chapter_id = ''number-systems'',
       cd_total_questions = 20, cd_correct_answers = 0,
       cd_score_percentage = score, cd_time_taken_minutes = 30,
       cd_strengths = [], cd_weaknesses = weaknesses, cd_knowledge_gaps = gaps,
       cd_prerequisite_concepts = [''Fractions'', ''Integers''],
       cd_difficulty_level = beginner, cd_raw_responses = [] \<rparr>"

subsection \<open>The persistence collaborator\<close>

text \<open>
  Every Supabase call resolves to \<^verbatim>\<open>{ data, error }\<close>. Whether the store answers
  with an error is decided outside the service, so a call of the model takes the store's
  answers as flags. A rejected write leaves the table as it was. A thrown error is the
  value \<open>DbError\<close>.

  The table \<^verbatim>\<open>concept_mastery\<close> is declared with
  \<^verbatim>\<open>UNIQUE(user_id, chapter_id, concept)\<close>: it is a partial map from the triple to
  the row. The columns the service writes or reads are kept; \<^verbatim>\<open>id\<close>,
  \<^verbatim>\<open>difficulty_progression\<close> and the two audit timestamps are filled by the
  database and never read by the code modelled here. The stored numbers are exact: the
  rounding of the column type \<^verbatim>\<open>decimal(3,2)\<close> belongs to the store and is not
  modelled.
\<close>

datatype error = DbError

record ConceptMastery =
  cm_user_id :: string
  cm_chapter_id :: string
  cm_concept :: string
  cm_mastery_level :: real
  cm_attempts_count :: int
  cm_correct_attempts :: int
  cm_last_practiced_at :: string
  cm_time_to_master_minutes :: int

type_synonym mastery_key = "string \<times> string \<times> string"
type_synonym mastery_table = "mastery_key \<rightharpoonup> ConceptMastery"

record db_reply =
  select_ok :: bool
  write_ok :: bool

text \<open>
  \<^verbatim>\<open>.select('*').eq(...).eq(...).eq(...).single()\<close>: the row of the triple, or
  \<^verbatim>\<open>null\<close> when there is none or the call fails (the code drops the error).
\<close>

definition select_single :: "bool \<Rightarrow> mastery_table \<Rightarrow> mastery_key \<Rightarrow> ConceptMastery option" where
  "select_single ok tbl k = (if ok then tbl k else None)"

text \<open>\<^verbatim>\<open>.update({...}).eq('id', existing.id)\<close>: rewrites columns of the row found.\<close>

definition db_update ::
  "bool \<Rightarrow> mastery_table \<Rightarrow> mastery_key \<Rightarrow> (ConceptMastery \<Rightarrow> ConceptMastery) \<Rightarrow> error + mastery_table" where
  "db_update ok tbl k f =
     (if ok then Inr (case tbl k of None \<Rightarrow> tbl | Some row \<Rightarrow> tbl(k \<mapsto> f row))
      else Inl DbError)"

text \<open>\<^verbatim>\<open>.insert({...})\<close>: a second row for a triple violates the uniqueness constraint.\<close>

definition db_insert :: "bool \<Rightarrow> mastery_table \<Rightarrow> ConceptMastery \<Rightarrow> error + mastery_table" where
  "db_insert ok tbl row =
     (let k = (cm_user_id row, cm_chapter_id row, cm_concept row)
      in if ok \<and> tbl k = None then Inr (tbl(k \<mapsto> row)) else Inl DbError)"

subsection \<open>The mastery update\<close>

text \<open>
  \<^verbatim>\<open>updateConceptMastery\<close>. \<open>now\<close> stands for
  \<^verbatim>\<open>new Date().toISOString()\<close>. The quotient is taken by
  \<^verbatim>\<open>newAttemptsCount\<close>, which is zero only for a stored count of \<open>-1\<close>; there
  JavaScript yields a non-finite number and the model's value means nothing.
\<close>

definition updateConceptMastery ::
  "db_reply \<Rightarrow> string \<Rightarrow> mastery_table \<Rightarrow> string \<Rightarrow> string \<Rightarrow> string \<Rightarrow> bool \<Rightarrow> real
     \<Rightarrow> error + mastery_table" where
  "updateConceptMastery db now tbl userId chapterId concept isCorrect timeSpent =
     (case select_single (select_ok db) tbl (userId, chapterId, concept) of
        Some existing \<Rightarrow>
          (let newAttemptsCount = cm_attempts_count existing + 1;
               newCorrectAttempts = cm_correct_attempts existing + (if isCorrect then 1 else 0);
               newMasteryLevel = min 1 (of_int newCorrectAttempts / of_int newAttemptsCount)
           in db_update (write_ok db) tbl (userId, chapterId, concept)
                (\<lambda>row. row\<lparr> cm_attempts_count := newAttemptsCount,
                             cm_correct_attempts := newCorrectAttempts,
                             cm_mastery_level := newMasteryLevel,
                             cm_last_practiced_at := now,
                             cm_time_to_master_minutes :=
                               cm_time_to_master_minutes existing + \<lfloor>timeSpent / 60\<rfloor> \<rparr>))
      | None \<Rightarrow>
          db_insert (write_ok db) tbl
            \<lparr> cm_user_id = userId,
              cm_chapter_id = chapterId,
              cm_concept = concept,
              cm_mastery_level = (if isCorrect then 1 else 0),
              cm_attempts_count = 1,
              cm_correct_attempts = (if isCorrect then 1 else 0),
              cm_last_practiced_at = now,
              cm_time_to_master_minutes = \<lfloor>timeSpent / 60\<rfloor> \<rparr>)"

text \<open>
  A sequence of calls of \<^verbatim>\<open>updateConceptMastery\<close>, each with the store's answers
  and the clock of its moment; the sequence ends at the first call that throws.
\<close>

record mastery_call =
  mc_db :: db_reply
  mc_now :: string
  mc_userId :: string
  mc_chapterId :: string
  mc_concept :: string
  mc_isCorrect :: bool
  mc_timeSpent :: real

definition call_key :: "mastery_call \<Rightarrow> mastery_key" where
  "call_key c = (mc_userId c, mc_chapterId c, mc_concept c)"

fun run_updates :: "mastery_table \<Rightarrow> mastery_call list \<Rightarrow> error + mastery_table" where
  "run_updates tbl [] = Inr tbl"
| "run_updates tbl (c # cs) =
     (case updateConceptMastery (mc_db c) (mc_now c) tbl (mc_userId c) (mc_chapterId c)
             (mc_concept c) (mc_isCorrect c) (mc_timeSpent c) of
        Inl e \<Rightarrow> Inl e
      | Inr tbl' \<Rightarrow> run_updates tbl' cs)"

text \<open>The calls of a sequence that concern one triple.\<close>

definition calls_on :: "mastery_key \<Rightarrow> mastery_call list \<Rightarrow> mastery_call list" where
  "calls_on k cs = filter (\<lambda>c. call_key c = k) cs"

text \<open>The invariant of a mastery row, as the data model states it.\<close>

definition row_inv :: "ConceptMastery \<Rightarrow> bool" where
  "row_inv r =
     (0 \<le> cm_mastery_level r \<and> cm_mastery_level r \<le> 1
      \<and> 0 \<le> cm_correct_attempts r \<and> cm_correct_attempts r \<le> cm_attempts_count r)"

definition table_inv :: "mastery_table \<Rightarrow> bool" where
  "table_inv tbl = (\<forall>r \<in> ran tbl. row_inv r)"

subsection \<open>Recording a question attempt\<close>

datatype question_type = diagnostic | quiz | practice

datatype difficulty = easy | medium | hard

record QuestionAttempt =
  qa_id :: "string option"
  qa_user_id :: string
  qa_question_id :: string
  qa_question_text :: string
  qa_question_type :: question_type
  qa_chapter_id :: "string option"
  qa_topic :: "string option"
  qa_concept :: "string option"
  qa_difficulty :: difficulty
  qa_user_answer :: string
  qa_correct_answer :: string
  qa_is_correct :: bool
  qa_time_taken_seconds :: real
  qa_hints_used :: int
  qa_attempts_count :: int
  qa_confidence_level :: int
  qa_session_id :: "string option"

text \<open>
  The two tables \<^verbatim>\<open>recordQuestionAttempt\<close> writes. An optional string is truthy
  when it is present and not empty.
\<close>

record store =
  question_attempts :: "QuestionAttempt list"
  concept_mastery :: mastery_table

definition truthy :: "string option \<Rightarrow> bool" where
  "truthy s = (case s of None \<Rightarrow> False | Some v \<Rightarrow> v \<noteq> [])"

record attempt_db =
  insert_ok :: bool
  mastery_db :: db_reply

text \<open>
  \<^verbatim>\<open>recordQuestionAttempt\<close> returns the store it leaves behind and the error it
  throws, if any: the attempt stays inserted when the mastery update throws after it.
\<close>

definition recordQuestionAttempt ::
  "attempt_db \<Rightarrow> string \<Rightarrow> store \<Rightarrow> QuestionAttempt \<Rightarrow> store \<times> error option" where
  "recordQuestionAttempt db now st attempt =
     (if \<not> insert_ok db then (st, Some DbError)
      else
        (let st1 = st\<lparr> question_attempts := push (question_attempts st) attempt \<rparr>
         in if truthy (qa_concept attempt) \<and> truthy (qa_chapter_id attempt)
            then
              (case updateConceptMastery (mastery_db db) now (concept_mastery st1)
                      (qa_user_id attempt)
                      (case qa_chapter_id attempt of Some ch \<Rightarrow> ch | None \<Rightarrow> [])
                      (case qa_concept attempt of Some c \<Rightarrow> c | None \<Rightarrow> [])
                      (qa_is_correct attempt)
                      (qa_time_taken_seconds attempt) of
                 Inl e \<Rightarrow> (st1, Some e)
               | Inr tbl \<Rightarrow> (st1\<lparr> concept_mastery := tbl \<rparr>, None))
            else (st1, None)))"

subsection \<open>Summaries and examples for the mastery update\<close>

text \<open>What a row records about the calls made on its triple.\<close>

definition summary :: "mastery_call list \<Rightarrow> ConceptMastery option \<Rightarrow> bool" where
  "summary xs r =
     (case r of
        None \<Rightarrow> xs = []
      | Some row \<Rightarrow>
          xs \<noteq> []
          \<and> cm_attempts_count row = int (length xs)
          \<and> cm_correct_attempts row = int (length (filter mc_isCorrect xs))
          \<and> cm_mastery_level row
              = min 1 (of_nat (length (filter mc_isCorrect xs)) / of_nat (length xs))
          \<and> cm_time_to_master_minutes row = (\<Sum>c\<leftarrow>xs. \<lfloor>mc_timeSpent c / 60\<rfloor>))"

text \<open>A run of three calls on two concepts of one chapter.\<close>

definition example_call :: "string \<Rightarrow> bool \<Rightarrow> real \<Rightarrow> mastery_call" where
  "example_call concept ok seconds =
     \<lparr> mc_db = \<lparr> select_ok = True, write_ok = True \<rparr>, mc_now = ''2025-09-11T11:05:50Z'',
       mc_userId = ''u1'', mc_chapterId = ''ch1'', mc_concept = concept,
       mc_isCorrect = ok, mc_timeSpent = seconds \<rparr>"

definition example_calls :: "mastery_call list" where
  "example_calls =
     [example_call ''Fractions'' True 130, example_call ''Integers'' False 45,
      example_call ''Fractions'' False 75]"

subsection \<open>Examples for recording an attempt\<close>

text \<open>
  One attempt, with the chapter and the concept it carries left open; a store that accepts
  every call; the store before the first attempt.
\<close>

definition example_attempt :: "string option \<Rightarrow> string option \<Rightarrow> QuestionAttempt" where
  "example_attempt chapter concept =
     \<lparr> qa_id = None, qa_user_id = ''u1'', qa_question_id = ''q7'',
       qa_question_text = ''What is 2/3 + 1/4?'', qa_question_type = practice,
       qa_chapter_id = chapter, qa_topic = Some ''Fractions'', qa_concept = concept,
       qa_difficulty = medium, qa_user_answer = ''11/12'', qa_correct_answer = ''11/12'',
       qa_is_correct = True, qa_time_taken_seconds = 95, qa_hints_used = 0,
       qa_attempts_count = 1, qa_confidence_level = 4, qa_session_id = None \<rparr>"

definition all_ok :: attempt_db where
  "all_ok = \<lparr> insert_ok = True, mastery_db = \<lparr> select_ok = True, write_ok = True \<rparr> \<rparr>"

definition empty_store :: store where
  "empty_store = \<lparr> question_attempts = [], concept_mastery = Map.empty \<rparr>"

subsection \<open>Strings\<close>

















subsection \<open>The generation oracle\<close>

text \<open>
  A value that \<^verbatim>\<open>JSON.parse\<close> returns. \<^verbatim>\<open>JSON.parse\<close> itself is a
  parameter \<open>parse\<close> of the model; \<open>None\<close> stands for its \<^verbatim>\<open>SyntaxError\<close>.
\<close>

datatype json =
    JNull
  | JBool bool
  | JNumber real
  | JString string
  | JArray "json list"
  | JObject "(string \<times> json) list"






subsection \<open>Recommendations of the diagnostic analyzer\<close>

















subsection \<open>The diagnostic analyzer\<close>

text \<open>
  \<^verbatim>\<open>DiagnosticQuestion\<close> and \<^verbatim>\<open>DiagnosticResult\<close> are imported from
  \<^verbatim>\<open>../types\<close>; their fields are those of the question literals and of the object that
  \<^verbatim>\<open>analyzeDiagnosticResults\<close> returns.
\<close>

record DiagnosticQuestion =
  dq_id :: string
  dq_question :: string
  dq_options :: "string list"
  dq_correct_answer :: string
  dq_explanation :: string
  dq_difficulty :: difficulty
  dq_topic :: string
  dq_concept :: string

record diagnostic_answer =
  questionId :: string
  answer :: string
  correct :: bool

record DiagnosticResult =
  dr_id :: string
  dr_user_id :: string
  dr_score :: nat
  dr_total_questions :: nat
  dr_strengths :: "string list"
  dr_weaknesses :: "string list"
  dr_gaps :: "string list"
  dr_recommendations :: "json list"
  dr_completed_at :: string

text \<open>
  \<^verbatim>\<open>topicScores\<close> and \<^verbatim>\<open>conceptScores\<close> are objects used as dictionaries:
  association lists of their own properties in the order in which the keys were added.
  Two traits of JavaScript objects show through this use.
  \<^item> A lookup \<^verbatim>\<open>obj[key]\<close> also finds what the object inherits from
    \<^verbatim>\<open>Object.prototype\<close>. For such a key the test \<^verbatim>\<open>!obj[key]\<close> fails, no own
    property is created, and the increments land on the inherited value: the dictionary
    stays as it is.
  \<^item> \<^verbatim>\<open>Object.entries\<close> lists the keys that are array indices first, in ascending
    numeric order, and then the other keys in the order of their creation.
\<close>

definition object_prototype_names :: "string list" where
  "object_prototype_names =
     [''constructor'', ''toString'', ''toLocaleString'', ''valueOf'', ''hasOwnProperty'',
      ''isPrototypeOf'', ''propertyIsEnumerable'', ''__proto__'', ''__defineGetter__'',
      ''__defineSetter__'', ''__lookupGetter__'', ''__lookupSetter__'']"

definition inherited :: "string \<Rightarrow> bool" where
  "inherited key = (key \<in> set object_prototype_names)"

definition is_digit :: "char \<Rightarrow> bool" where
  "is_digit c = (48 \<le> (of_char c :: nat) \<and> (of_char c :: nat) \<le> 57)"

definition int_of_digits :: "string \<Rightarrow> int" where
  "int_of_digits key = foldl (\<lambda>n c. 10 * n + (of_char c - 48)) 0 key"

text \<open>An array index is the canonical decimal form of a number below \<open>2^32 - 1\<close>.\<close>

definition array_index :: "string \<Rightarrow> int option" where
  "array_index key =
     (if key \<noteq> [] \<and> list_all is_digit key \<and> (key = ''0'' \<or> hd key \<noteq> CHR ''0'')
         \<and> int_of_digits key < 4294967295
      then Some (int_of_digits key) else None)"

definition object_entries :: "(string \<times> 'a) list \<Rightarrow> (string \<times> 'a) list" where
  "object_entries tbl =
     sort_key (\<lambda>e. case array_index (fst e) of Some n \<Rightarrow> n | None \<Rightarrow> 0)
       (filter (\<lambda>e. array_index (fst e) \<noteq> None) tbl)
     @ filter (\<lambda>e. array_index (fst e) = None) tbl"

record scores =
  sc_correct :: nat
  sc_total :: nat

type_synonym score_table = "(string \<times> scores) list"

definition modify :: "string \<Rightarrow> (scores \<Rightarrow> scores) \<Rightarrow> score_table \<Rightarrow> score_table" where
  "modify key f tbl = map (\<lambda>(k, s). if k = key then (k, f s) else (k, s)) tbl"

text \<open>The four statements of the loop body for one of the two dictionaries.\<close>

definition track :: "score_table \<Rightarrow> string \<Rightarrow> bool \<Rightarrow> score_table" where
  "track tbl key isCorrect =
     (if inherited key then tbl
      else
        (let tbl1 =
               (if map_of tbl key = None
                then push tbl (key, \<lparr> sc_correct = 0, sc_total = 0 \<rparr>)
                else tbl);
             tbl2 = modify key (\<lambda>s. s\<lparr> sc_total := sc_total s + 1 \<rparr>) tbl1;
             tbl3 =
               (if isCorrect then modify key (\<lambda>s. s\<lparr> sc_correct := sc_correct s + 1 \<rparr>) tbl2
                else tbl2)
         in tbl3))"

text \<open>
  \<^verbatim>\<open>answers.forEach((answer, index) => ...)\<close>: the question is
  \<^verbatim>\<open>questions[index]\<close>, and an answer beyond the last question is skipped.
\<close>

fun forEach_answer ::
  "diagnostic_answer list \<Rightarrow> nat \<Rightarrow> DiagnosticQuestion list \<Rightarrow> score_table \<times> score_table
     \<Rightarrow> score_table \<times> score_table" where
  "forEach_answer [] index questions tables = tables"
| "forEach_answer (a # rest) index questions (topicScores, conceptScores) =
     (if index < length questions
      then
        (let question = questions ! index
         in forEach_answer rest (Suc index) questions
              (track topicScores (dq_topic question) (correct a),
               track conceptScores (dq_concept question) (correct a)))
      else forEach_answer rest (Suc index) questions (topicScores, conceptScores))"

text \<open>
  The body of \<^verbatim>\<open>Object.entries(topicScores).forEach\<close>, on the three arrays
  \<^verbatim>\<open>strengths\<close>, \<^verbatim>\<open>weaknesses\<close> and \<^verbatim>\<open>gaps\<close>. \<^verbatim>\<open>scores.total\<close> is
  at least one for every entry.
\<close>

definition classify ::
  "string list \<times> string list \<times> string list \<Rightarrow> string \<times> scores
     \<Rightarrow> string list \<times> string list \<times> string list" where
  "classify arrays entry =
     (case (arrays, entry) of
        ((strengths, weaknesses, gaps), (topic, scores)) \<Rightarrow>
          (let percentage = (real (sc_correct scores) / real (sc_total scores)) * 100;
               (strengths1, weaknesses1) =
                 (if percentage \<ge> 80 then (push strengths topic, weaknesses)
                  else if percentage \<ge> 50 then (strengths, weaknesses)
                  else (strengths, push weaknesses topic));
               gaps1 = (if percentage < 30 then push gaps topic else gaps)
           in (strengths1, weaknesses1, gaps1)))"

text \<open>
  \<^verbatim>\<open>analyzeDiagnosticResults\<close>. \<open>recommend\<close> is the
  \<^verbatim>\<open>generateRecommendations\<close> of the file, already given its oracle;
  \<open>now_ms\<close> and \<open>now_iso\<close> are the clock readings.
\<close>

definition analyzeDiagnosticResults ::
  "(string list \<Rightarrow> string list \<Rightarrow> string list \<Rightarrow> nat \<Rightarrow> nat \<Rightarrow> json list) \<Rightarrow> string \<Rightarrow> string
     \<Rightarrow> diagnostic_answer list \<Rightarrow> DiagnosticQuestion list \<Rightarrow> DiagnosticResult" where
  "analyzeDiagnosticResults recommend now_ms now_iso answers questions =
     (let score = length (filter correct answers);
          totalQuestions = length questions;
          (topicScores, conceptScores) = forEach_answer answers 0 questions ([], []);
          (strengths, weaknesses, gaps) =
            foldl classify ([], [], []) (object_entries topicScores);
          recommendations = recommend strengths weaknesses gaps score totalQuestions
      in \<lparr> dr_id = now_ms,
           dr_user_id = [],
           dr_score = score,
           dr_total_questions = totalQuestions,
           dr_strengths = strengths,
           dr_weaknesses = weaknesses,
           dr_gaps = gaps,
           dr_recommendations = recommendations,
           dr_completed_at = now_iso \<rparr>)"

text \<open>
  The specification's reading of a topic's accuracy: the outcomes of a topic are those of
  the answers whose question, matched by position, has that topic.
\<close>

definition topic_outcomes :: "diagnostic_answer list \<Rightarrow> DiagnosticQuestion list \<Rightarrow> string \<Rightarrow> bool list" where
  "topic_outcomes answers questions topic =
     map (\<lambda>(a, q). correct a) (filter (\<lambda>(a, q). dq_topic q = topic) (zip answers questions))"

definition topic_accuracy :: "diagnostic_answer list \<Rightarrow> DiagnosticQuestion list \<Rightarrow> string \<Rightarrow> real" where
  "topic_accuracy answers questions topic =
     100 * real (length (filter id (topic_outcomes answers questions topic)))
       / real (length (topic_outcomes answers questions topic))"

definition tested :: "diagnostic_answer list \<Rightarrow> DiagnosticQuestion list \<Rightarrow> string \<Rightarrow> bool" where
  "tested answers questions topic = (topic_outcomes answers questions topic \<noteq> [])"

text \<open>Two answer lists that differ at most in their \<^verbatim>\<open>questionId\<close> fields.\<close>

definition same_but_questionId :: "diagnostic_answer list \<Rightarrow> diagnostic_answer list \<Rightarrow> bool" where
  "same_but_questionId xs ys =
     (map (\<lambda>a. (answer a, correct a)) xs = map (\<lambda>a. (answer a, correct a)) ys)"

text \<open>Example questions and answers.\<close>

definition example_question :: "string \<Rightarrow> string \<Rightarrow> DiagnosticQuestion" where
  "example_question ident topic =
     \<lparr> dq_id = ident, dq_question = ''What is 2/3 + 1/4?'',
       dq_options = [''5/7'', ''11/12'', ''3/7'', ''5/12''], dq_correct_answer = ''11/12'',
       dq_explanation = ''Find a common denominator.'', dq_difficulty = medium,
       dq_topic = topic, dq_concept = ''Addition of fractions'' \<rparr>"

definition example_answer :: "string \<Rightarrow> bool \<Rightarrow> diagnostic_answer" where
  "example_answer ident ok =
     \<lparr> questionId = ident, answer = (if ok then ''11/12'' else ''5/7''), correct = ok \<rparr>"

definition no_recommendations ::
  "string list \<Rightarrow> string list \<Rightarrow> string list \<Rightarrow> nat \<Rightarrow> nat \<Rightarrow> json list" where
  "no_recommendations strengths weaknesses gaps score totalQuestions = []"

subsection \<open>Auxiliary notions and examples for the diagnostic analyzer\<close>

text \<open>
  Auxiliary notions for the analysis of the two loops: the effect of one answer on an
  entry, the loop body on a pair of an answer and its question, the percentage of an
  entry, and what a dictionary records about a list of such pairs.
\<close>

definition bump :: "bool \<Rightarrow> scores \<Rightarrow> scores" where
  "bump b s = \<lparr> sc_correct = sc_correct s + (if b then 1 else 0), sc_total = sc_total s + 1 \<rparr>"

definition pair_step :: "score_table \<Rightarrow> diagnostic_answer \<times> DiagnosticQuestion \<Rightarrow> score_table" where
  "pair_step tbl p = track tbl (dq_topic (snd p)) (correct (fst p))"

definition percentage_of :: "scores \<Rightarrow> real" where
  "percentage_of s = (real (sc_correct s) / real (sc_total s)) * 100"

definition outcomes :: "string \<Rightarrow> (diagnostic_answer \<times> DiagnosticQuestion) list \<Rightarrow> bool list" where
  "outcomes t ps = map (\<lambda>(a, q). correct a) (filter (\<lambda>(a, q). dq_topic q = t) ps)"

definition tallied :: "score_table \<Rightarrow> (diagnostic_answer \<times> DiagnosticQuestion) list \<Rightarrow> bool" where
  "tallied tbl ps =
     (distinct (map fst tbl)
      \<and> (\<forall>t. map_of tbl t =
             (if inherited t \<or> outcomes t ps = [] then None
              else Some \<lparr> sc_correct = length (filter id (outcomes t ps)),
                          sc_total = length (outcomes t ps) \<rparr>)))"

text \<open>Example diagnostics.\<close>

definition half_right :: "diagnostic_answer list" where
  "half_right = [example_answer ''diag_1'' True, example_answer ''diag_2'' False]"

definition two_on_fractions :: "DiagnosticQuestion list" where
  "two_on_fractions =
     [example_question ''diag_1'' ''Fractions'', example_question ''diag_2'' ''Fractions'']"

definition graded :: "nat \<Rightarrow> nat \<Rightarrow> diagnostic_answer list" where
  "graded right wrong =
     replicate right (example_answer ''q'' True) @ replicate wrong (example_answer ''q'' False)"

definition ten_on_fractions :: "DiagnosticQuestion list" where
  "ten_on_fractions = replicate 10 (example_question ''q'' ''Fractions'')"

definition right_then_wrong :: "string \<Rightarrow> string \<Rightarrow> diagnostic_answer list" where
  "right_then_wrong id1 id2 = [example_answer id1 True, example_answer id2 False]"

definition algebra_then_geometry :: "DiagnosticQuestion list" where
  "algebra_then_geometry =
     [example_question ''diag_1'' ''Algebra'', example_question ''diag_2'' ''Geometry'']"

subsection \<open>Oracle failure\<close>












subsection \<open>The progress report\<close>

text \<open>
  Rows of \<^verbatim>\<open>study_sessions\<close>; \<^verbatim>\<open>ended_at\<close> and
  \<^verbatim>\<open>duration_minutes\<close> may be \<^verbatim>\<open>null\<close>, and the free-form
  \<^verbatim>\<open>session_data\<close> is left out.
\<close>

datatype session_type = study_session | quiz_session | diagnostic_session | practice_session

record StudySession =
  ss_id :: "string option"
  ss_user_id :: string
  ss_session_type :: session_type
  ss_chapter_id :: "string option"
  ss_topic :: "string option"
  ss_started_at :: string
  ss_ended_at :: "string option"
  ss_duration_minutes :: "int option"
  ss_questions_attempted :: int
  ss_questions_correct :: int
  ss_concepts_covered :: "string list"

datatype report_type = daily | weekly | monthly | chapter_report

text \<open>
  The fields of \<^verbatim>\<open>ProgressReport\<close> but the untyped \<^verbatim>\<open>report_data\<close>.
\<close>

record ProgressReport =
  pr_user_id :: string
  pr_report_type :: report_type
  pr_report_period_start :: string
  pr_report_period_end :: string
  pr_chapter_id :: "string option"
  pr_overall_progress :: real
  pr_strengths_identified :: "string list"
  pr_areas_for_improvement :: "string list"
  pr_time_spent_minutes :: int
  pr_questions_attempted :: nat
  pr_accuracy_percentage :: real
  pr_concepts_mastered :: "string list"
  pr_ai_insights :: string
  pr_recommendations :: "string list"

text \<open>\<^verbatim>\<open>x || 0\<close> for a number \<open>x\<close>, and for a number that may be \<^verbatim>\<open>null\<close>.\<close>

definition or_zero :: "'a::zero \<Rightarrow> 'a" where
  "or_zero x = (if x = 0 then 0 else x)"

definition null_or_zero :: "'a::zero option \<Rightarrow> 'a" where
  "null_or_zero x = (case x of None \<Rightarrow> 0 | Some v \<Rightarrow> or_zero v)"

text \<open>
  The four metrics of \<^verbatim>\<open>generateProgressReport\<close>. A query result is
  \<^verbatim>\<open>null\<close> (\<open>None\<close>) when the query failed.
\<close>

definition totalAttempts :: "QuestionAttempt list option \<Rightarrow> nat" where
  "totalAttempts attempts = null_or_zero (map_option length attempts)"

definition correctAttempts :: "QuestionAttempt list option \<Rightarrow> nat" where
  "correctAttempts attempts =
     null_or_zero (map_option (\<lambda>rows. length (filter qa_is_correct rows)) attempts)"

definition accuracyPercentage :: "QuestionAttempt list option \<Rightarrow> real" where
  "accuracyPercentage attempts =
     (if totalAttempts attempts > 0
      then (real (correctAttempts attempts) / real (totalAttempts attempts)) * 100
      else 0)"

definition totalTimeSpent :: "StudySession list option \<Rightarrow> int" where
  "totalTimeSpent sessions =
     null_or_zero
       (map_option (foldl (\<lambda>sum s. sum + null_or_zero (ss_duration_minutes s)) 0) sessions)"

text \<open>
  \<^verbatim>\<open>analyzeConceptPerformance\<close>: a dictionary from concept to statistics, filled by
  a first loop over the attempts that carry a concept and completed by a second loop over
  its keys.
\<close>

record concept_stats =
  cs_total :: nat
  cs_correct :: nat
  cs_accuracy :: real
  cs_avgTime :: real
  cs_totalTime :: real

definition modify_stats ::
  "string \<Rightarrow> (concept_stats \<Rightarrow> concept_stats) \<Rightarrow> (string \<times> concept_stats) list
     \<Rightarrow> (string \<times> concept_stats) list" where
  "modify_stats key f tbl = map (\<lambda>(k, s). if k = key then (k, f s) else (k, s)) tbl"

definition count_attempt ::
  "(string \<times> concept_stats) list \<Rightarrow> QuestionAttempt \<Rightarrow> (string \<times> concept_stats) list" where
  "count_attempt conceptStats attempt =
     (if \<not> truthy (qa_concept attempt) then conceptStats
      else if inherited (case qa_concept attempt of Some c \<Rightarrow> c | None \<Rightarrow> [])
      then conceptStats
      else
        (let concept = (case qa_concept attempt of Some c \<Rightarrow> c | None \<Rightarrow> []);
             stats1 =
               (if map_of conceptStats concept = None
                then push conceptStats
                       (concept, \<lparr> cs_total = 0, cs_correct = 0, cs_accuracy = 0,
                                   cs_avgTime = 0, cs_totalTime = 0 \<rparr>)
                else conceptStats);
             stats2 = modify_stats concept (\<lambda>s. s\<lparr> cs_total := cs_total s + 1 \<rparr>) stats1;
             stats3 =
               (if qa_is_correct attempt
                then modify_stats concept (\<lambda>s. s\<lparr> cs_correct := cs_correct s + 1 \<rparr>) stats2
                else stats2);
             stats4 =
               modify_stats concept
                 (\<lambda>s. s\<lparr> cs_totalTime := cs_totalTime s + qa_time_taken_seconds attempt \<rparr>)
                 stats3
         in stats4))"

definition analyzeConceptPerformance ::
  "QuestionAttempt list \<Rightarrow> (string \<times> concept_stats) list" where
  "analyzeConceptPerformance attempts =
     map (\<lambda>(concept, stats).
            (concept,
             stats\<lparr> cs_accuracy := (real (cs_correct stats) / real (cs_total stats)) * 100,
                    cs_avgTime := cs_totalTime stats / real (cs_total stats) \<rparr>))
       (foldl count_attempt [] attempts)"

text \<open>\<^verbatim>\<open>calculateOverallProgress\<close>\<close>

definition calculateOverallProgress :: "ConceptMastery list \<Rightarrow> real" where
  "calculateOverallProgress masteryData =
     (if length masteryData = 0 then 0
      else
        (let totalMastery = foldl (\<lambda>sum m. sum + cm_mastery_level m) 0 masteryData
         in (totalMastery / real (length masteryData)) * 100))"

text \<open>
  \<^verbatim>\<open>generateProgressRecommendations\<close>; the emoji are the bytes that the file holds.
\<close>

definition emoji_books :: string where
  "emoji_books = [CHR 0xC3, CHR 0xB0, CHR 0xC5, CHR 0xB8, CHR 0xE2, CHR 0x80, CHR 0x9C,
                  CHR 0xC5, CHR 0xA1]"

definition emoji_target :: string where
  "emoji_target = [CHR 0xC3, CHR 0xB0, CHR 0xC5, CHR 0xB8, CHR 0xC5, CHR 0xBD, CHR 0xC2,
                   CHR 0xAF]"

definition emoji_biceps :: string where
  "emoji_biceps = [CHR 0xC3, CHR 0xB0, CHR 0xC5, CHR 0xB8, CHR 0xE2, CHR 0x80, CHR 0x99,
                   CHR 0xC2, CHR 0xAA]"

definition emoji_puzzle :: string where
  "emoji_puzzle = [CHR 0xC3, CHR 0xB0, CHR 0xC5, CHR 0xB8, CHR 0xC2, CHR 0xA7, CHR 0xC2,
                   CHR 0xA9]"

definition generateProgressRecommendations :: "string \<Rightarrow> string list \<Rightarrow> string list" where
  "generateProgressRecommendations userId weaknesses =
     (let recommendations0 =
            [''Continue your daily practice routine - consistency is key! '' @ emoji_books,
             ''Great job on maintaining focus during study sessions! '' @ emoji_target]
      in if length weaknesses > 0
         then push
                (push recommendations0
                   (''Focus extra attention on '' @ weaknesses ! 0 @ '' - you''
                      @ [CHR 0x27] @ ''re getting there! '' @ emoji_biceps))
                (''Try breaking down '' @ weaknesses ! 0
                   @ '' into smaller concepts for better understanding '' @ emoji_puzzle)
         else recommendations0)"

text \<open>
  \<^verbatim>\<open>generateProgressReport\<close>, from the results of its three queries on. The window
  \<open>startDate\<close>, \<open>endDate\<close> comes from the clock, \<open>aiInsights\<close> from
  \<^verbatim>\<open>generateAIInsights\<close>, which returns the oracle's text or a fixed sentence and
  never throws; \<open>insert_accepted\<close> is the store's answer to the final insert, after which
  the stored report is returned.
\<close>

definition generateProgressReport ::
  "bool \<Rightarrow> string \<Rightarrow> string \<Rightarrow> string \<Rightarrow> string \<Rightarrow> report_type \<Rightarrow> string option
     \<Rightarrow> QuestionAttempt list option \<Rightarrow> StudySession list option \<Rightarrow> ConceptMastery list option
     \<Rightarrow> error + ProgressReport" where
  "generateProgressReport insert_accepted aiInsights startDate endDate userId reportType
       chapterId attempts sessions mastery =
     (let conceptStats =
            analyzeConceptPerformance (case attempts of None \<Rightarrow> [] | Some rows \<Rightarrow> rows);
          strengths =
            map fst (filter (\<lambda>(concept, stats). cs_accuracy stats > 80)
                       (object_entries conceptStats));
          weaknesses =
            map fst (filter (\<lambda>(concept, stats). cs_accuracy stats < 60)
                       (object_entries conceptStats));
          masteredConcepts =
            (case mastery of
               None \<Rightarrow> []
             | Some rows \<Rightarrow> map cm_concept (filter (\<lambda>m. cm_mastery_level m \<ge> 0.8) rows));
          report =
            \<lparr> pr_user_id = userId,
              pr_report_type = reportType,
              pr_report_period_start = startDate,
              pr_report_period_end = endDate,
              pr_chapter_id = chapterId,
              pr_overall_progress =
                calculateOverallProgress (case mastery of None \<Rightarrow> [] | Some rows \<Rightarrow> rows),
              pr_strengths_identified = strengths,
              pr_areas_for_improvement = weaknesses,
              pr_time_spent_minutes = totalTimeSpent sessions,
              pr_questions_attempted = totalAttempts attempts,
              pr_accuracy_percentage = accuracyPercentage attempts,
              pr_concepts_mastered = masteredConcepts,
              pr_ai_insights = aiInsights,
              pr_recommendations = generateProgressRecommendations userId weaknesses \<rparr>
      in if insert_accepted then Inr report else Inl DbError)"

subsection \<open>Auxiliary notions for the progress report\<close>

text \<open>
  A query that found nothing (or failed), the arithmetic mean, and an example mastery row.
\<close>

definition no_rows :: "'a list option \<Rightarrow> bool" where
  "no_rows result = (case result of None \<Rightarrow> True | Some rows \<Rightarrow> rows = [])"

definition mean :: "real list \<Rightarrow> real" where
  "mean xs = sum_list xs / real (length xs)"

definition example_mastery :: "string \<Rightarrow> real \<Rightarrow> ConceptMastery" where
  "example_mastery concept level =
     \<lparr> cm_user_id = ''u1'', cm_chapter_id = ''ch1'', cm_concept = concept,
       cm_mastery_level = level, cm_attempts_count = 4, cm_correct_attempts = 1,
       cm_last_practiced_at = ''2025-09-11T11:05:50Z'', cm_time_to_master_minutes = 12 \<rparr>"

section \<open>Properties\<close>

subsection \<open>The learning path\<close>

lemma foldl_push_map:
  "foldl (\<lambda>acc x. push acc (f x)) acc0 xs = acc0 @ map f xs"
  by (induction xs arbitrary: acc0) (simp_all add: push_def)

lemma foldl_push2_concat:
  "foldl (\<lambda>acc x. push (push acc (f x)) (g x)) acc0 xs
     = acc0 @ concat (map (\<lambda>x. [f x, g x]) xs)"
  by (induction xs arbitrary: acc0) (simp_all add: push_def)

text \<open>
  Claim C3. The estimated completion days are
  \<open>min 21 (7 + 2 * weaknesses + 3 * gaps + B)\<close> with \<open>B = 5\<close> below a score of 30,
  \<open>B = 3\<close> from 30 and below 60, and \<open>B = 0\<close> otherwise; the result always lies
  between 7 and 21 inclusive. With no weakness, no gap and a score of 95 it is 7; with
  three weaknesses, two gaps and a score of 20 the sum 24 is capped to 21.
\<close>

theorem estimateCompletionTime_formula:
  "estimateCompletionTime d =
     min 21 (7 + 2 * int (length (cd_weaknesses d)) + 3 * int (length (cd_knowledge_gaps d))
               + score_bonus (cd_score_percentage d))
   \<and> 7 \<le> estimateCompletionTime d \<and> estimateCompletionTime d \<le> 21
   \<and> estimateCompletionTime (example_diagnostic [] [] 95) = 7
   \<and> 7 + 2 * int (length [''a'', ''b'', ''c'']) + 3 * int (length [''g'', ''h''])
         + score_bonus 20 = 24
   \<and> estimateCompletionTime (example_diagnostic [''a'', ''b'', ''c''] [''g'', ''h''] 20) = 21"
  by (auto simp add: estimateCompletionTime_def score_bonus_def example_diagnostic_def Let_def)

text \<open>
  Claim C4. The remediation sequence is exactly: when there is a knowledge gap,
  "Review Prerequisites" followed by one "Master: c" per prerequisite concept c; then for
  each weakness w, in order, "Focus on: w" and "Practice: w Problems"; then
  "Core Chapter Concepts", "Advanced Applications", "Chapter Assessment"; nothing else.
\<close>

theorem generateLearningSequence_exact:
  "generateLearningSequence d =
     (if cd_knowledge_gaps d = [] then []
      else ''Review Prerequisites'' # map (\<lambda>c. ''Master: '' @ c) (cd_prerequisite_concepts d))
     @ concat (map (\<lambda>w. [''Focus on: '' @ w, ''Practice: '' @ w @ '' Problems''])
                 (cd_weaknesses d))
     @ [''Core Chapter Concepts'', ''Advanced Applications'', ''Chapter Assessment'']"
  unfolding generateLearningSequence_def Let_def foldl_push_map foldl_push2_concat
  by (simp add: push_def)

subsection \<open>The mastery update\<close>

lemma update_result:
  assumes "updateConceptMastery db now tbl u ch c b t = Inr tbl'"
  shows "tbl' = tbl((u, ch, c) \<mapsto>
           (case tbl (u, ch, c) of
              None \<Rightarrow> \<lparr> cm_user_id = u, cm_chapter_id = ch, cm_concept = c,
                         cm_mastery_level = (if b then 1 else 0), cm_attempts_count = 1,
                         cm_correct_attempts = (if b then 1 else 0),
                         cm_last_practiced_at = now,
                         cm_time_to_master_minutes = \<lfloor>t / 60\<rfloor> \<rparr>
            | Some r \<Rightarrow> r\<lparr> cm_attempts_count := cm_attempts_count r + 1,
                           cm_correct_attempts := cm_correct_attempts r + (if b then 1 else 0),
                           cm_mastery_level :=
                             min 1 (of_int (cm_correct_attempts r + (if b then 1 else 0))
                                      / of_int (cm_attempts_count r + 1)),
                           cm_last_practiced_at := now,
                           cm_time_to_master_minutes := cm_time_to_master_minutes r + \<lfloor>t / 60\<rfloor> \<rparr>))"
  using assms
  by (auto simp: updateConceptMastery_def select_single_def db_update_def db_insert_def Let_def
           split: option.splits if_splits)

lemma run_updates_snoc:
  "run_updates tbl (cs @ [c]) =
     (case run_updates tbl cs of
        Inl e \<Rightarrow> Inl e
      | Inr t \<Rightarrow> updateConceptMastery (mc_db c) (mc_now c) t (mc_userId c) (mc_chapterId c)
             (mc_concept c) (mc_isCorrect c) (mc_timeSpent c))"
  by (induction cs arbitrary: tbl) (auto split: sum.splits)

lemma run_summary:
  "run_updates Map.empty cs = Inr tbl \<Longrightarrow> summary (calls_on k cs) (tbl k)"
proof (induction cs arbitrary: tbl rule: rev_induct)
  case Nil
  then show ?case by (auto simp add: summary_def calls_on_def)
next
  case (snoc c cs)
  from snoc.prems obtain t where
    t: "run_updates Map.empty cs = Inr t" and
    u: "updateConceptMastery (mc_db c) (mc_now c) t (mc_userId c) (mc_chapterId c)
             (mc_concept c) (mc_isCorrect c) (mc_timeSpent c) = Inr tbl"
    by (auto simp: run_updates_snoc split: sum.splits)
  have ih: "summary (calls_on k cs) (t k)" by (rule snoc.IH [OF t])
  note res = update_result [OF u]
  show ?case
  proof (cases "call_key c = k")
    case False
    then have "tbl k = t k" by (subst res) (auto simp: call_key_def)
    moreover have "calls_on k (cs @ [c]) = calls_on k cs"
      using False by (simp add: calls_on_def)
    ultimately show ?thesis using ih by simp
  next
    case True
    then have k: "k = (mc_userId c, mc_chapterId c, mc_concept c)" by (simp add: call_key_def)
    have cs: "calls_on k (cs @ [c]) = calls_on k cs @ [c]"
      using True by (simp add: calls_on_def)
    show ?thesis
    proof (cases "t k")
      case None
      then have "calls_on k cs = []" using ih by (simp add: summary_def)
      then show ?thesis using None
        by (subst res) (simp add: k [symmetric] cs summary_def)
    next
      case (Some r)
      then show ?thesis using ih
        by (subst res) (simp add: k [symmetric] cs summary_def add.commute)
    qed
  qed
qed

text \<open>
  Claim C2. Starting from no record, after a sequence of mastery updates that all return,
  the row of a triple has \<open>attempts_count = N\<close>, \<open>correct_attempts = C\<close> and
  \<open>mastery_level = min 1 (C / N)\<close>, where \<open>N\<close> counts the calls on that triple and
  \<open>C\<close> those among them that reported a correct answer, whatever calls on other triples
  are interleaved; its cumulative minutes are the sum of \<open>floor (timeSpent / 60)\<close> over
  those calls; a triple without a call has no row. The first update creates the row with
  \<open>attempts_count = 1\<close>, and \<open>correct_attempts\<close> and \<open>mastery_level\<close> 1 or 0 according to
  correctness.
\<close>

theorem mastery_after_updates:
  assumes "run_updates Map.empty cs = Inr tbl"
  shows "(case tbl k of
            None \<Rightarrow> calls_on k cs = []
          | Some row \<Rightarrow>
              calls_on k cs \<noteq> []
              \<and> cm_attempts_count row = int (length (calls_on k cs))
              \<and> cm_correct_attempts row = int (length (filter mc_isCorrect (calls_on k cs)))
              \<and> cm_mastery_level row
                  = min 1 (of_nat (length (filter mc_isCorrect (calls_on k cs)))
                             / of_nat (length (calls_on k cs)))
              \<and> cm_time_to_master_minutes row
                  = (\<Sum>c\<leftarrow>calls_on k cs. \<lfloor>mc_timeSpent c / 60\<rfloor>))
         \<and> (\<forall>c. cs = [c] \<longrightarrow>
               (\<exists>row. tbl (call_key c) = Some row
                  \<and> cm_attempts_count row = 1
                  \<and> cm_correct_attempts row = (if mc_isCorrect c then 1 else 0)
                  \<and> cm_mastery_level row = (if mc_isCorrect c then 1 else 0)
                  \<and> cm_time_to_master_minutes row = \<lfloor>mc_timeSpent c / 60\<rfloor>))"
proof (intro conjI allI impI)
  show "case tbl k of
            None \<Rightarrow> calls_on k cs = []
          | Some row \<Rightarrow>
              calls_on k cs \<noteq> []
              \<and> cm_attempts_count row = int (length (calls_on k cs))
              \<and> cm_correct_attempts row = int (length (filter mc_isCorrect (calls_on k cs)))
              \<and> cm_mastery_level row
                  = min 1 (of_nat (length (filter mc_isCorrect (calls_on k cs)))
                             / of_nat (length (calls_on k cs)))
              \<and> cm_time_to_master_minutes row
                  = (\<Sum>c\<leftarrow>calls_on k cs. \<lfloor>mc_timeSpent c / 60\<rfloor>)"
    using run_summary [OF assms, of k] by (simp add: summary_def)
next
  fix c assume c: "cs = [c]"
  have "summary (calls_on (call_key c) cs) (tbl (call_key c))"
    by (rule run_summary [OF assms])
  then show "\<exists>row. tbl (call_key c) = Some row
                  \<and> cm_attempts_count row = 1
                  \<and> cm_correct_attempts row = (if mc_isCorrect c then 1 else 0)
                  \<and> cm_mastery_level row = (if mc_isCorrect c then 1 else 0)
                  \<and> cm_time_to_master_minutes row = \<lfloor>mc_timeSpent c / 60\<rfloor>"
    by (auto simp: c summary_def calls_on_def split: option.splits)
qed

theorem mastery_after_updates_witness:
  "\<exists>tbl row. run_updates Map.empty example_calls = Inr tbl
      \<and> tbl (''u1'', ''ch1'', ''Fractions'') = Some row
      \<and> cm_attempts_count row = 2 \<and> cm_correct_attempts row = 1
      \<and> cm_mastery_level row = 1 / 2 \<and> cm_time_to_master_minutes row = 3"
proof -
  have "\<exists>tbl. run_updates Map.empty example_calls = Inr tbl"
    by (simp add: example_calls_def example_call_def updateConceptMastery_def
          select_single_def db_update_def db_insert_def Let_def)
  then obtain tbl where r: "run_updates Map.empty example_calls = Inr tbl" ..
  have cs: "calls_on (''u1'', ''ch1'', ''Fractions'') example_calls
              = [example_call ''Fractions'' True 130, example_call ''Fractions'' False 75]"
    by (simp add: calls_on_def example_calls_def example_call_def call_key_def)
  from mastery_after_updates [OF r, of "(''u1'', ''ch1'', ''Fractions'')"] r
  show ?thesis
    by (auto simp: cs example_call_def split: option.splits)
qed

lemma row_inv_created:
  "row_inv \<lparr> cm_user_id = u, cm_chapter_id = ch, cm_concept = c,
             cm_mastery_level = (if b then 1 else 0), cm_attempts_count = 1,
             cm_correct_attempts = (if b then 1 else 0),
             cm_last_practiced_at = now, cm_time_to_master_minutes = m \<rparr>"
  by (simp add: row_inv_def)

lemma level_bounds:
  fixes c a :: int
  assumes "0 \<le> c" "0 \<le> a"
  shows "0 \<le> min (1::real) (of_int c / of_int (a + 1))" "min (1::real) (of_int c / of_int (a + 1)) \<le> 1"
  using assms by simp_all

lemma row_inv_incremented:
  assumes "row_inv r"
  shows "row_inv (r\<lparr> cm_attempts_count := cm_attempts_count r + 1,
                    cm_correct_attempts := cm_correct_attempts r + (if b then 1 else 0),
                    cm_mastery_level :=
                      min 1 (of_int (cm_correct_attempts r + (if b then 1 else 0))
                               / of_int (cm_attempts_count r + 1)),
                    cm_last_practiced_at := now,
                    cm_time_to_master_minutes := m \<rparr>)"
proof -
  from assms have c: "0 \<le> cm_correct_attempts r + (if b then 1 else 0)"
    and a: "0 \<le> cm_attempts_count r"
    and le: "cm_correct_attempts r + (if b then 1 else 0) \<le> cm_attempts_count r + 1"
    by (auto simp: row_inv_def)
  from level_bounds [OF c a] le c show ?thesis
    by (simp add: row_inv_def)
qed

lemma update_preserves_inv:
  assumes "table_inv tbl" and "updateConceptMastery db now tbl u ch c b t = Inr tbl'"
  shows "table_inv tbl'"
proof -
  note res = update_result [OF assms(2)]
  show ?thesis
    unfolding table_inv_def
  proof
    fix r assume "r \<in> ran tbl'"
    then obtain k where k: "tbl' k = Some r" unfolding ran_def by blast
    show "row_inv r"
    proof (cases "k = (u, ch, c)")
      case False
      with k res have "tbl k = Some r" by auto
      then have "r \<in> ran tbl" by (auto intro: ranI)
      with assms(1) show ?thesis by (simp add: table_inv_def)
    next
      case True
      show ?thesis
      proof (cases "tbl (u, ch, c)")
        case None
        with k True res show ?thesis by (auto simp: row_inv_created)
      next
        case (Some old)
        then have "old \<in> ran tbl" by (auto intro: ranI)
        with assms(1) have "row_inv old" by (simp add: table_inv_def)
        from row_inv_incremented [OF this] k True res Some show ?thesis by auto
      qed
    qed
  qed
qed

lemma run_preserves_inv:
  "table_inv tbl \<Longrightarrow> run_updates tbl cs = Inr tbl' \<Longrightarrow> table_inv tbl'"
proof (induction cs arbitrary: tbl)
  case Nil
  then show ?case by simp
next
  case (Cons c cs)
  then show ?case
    by (auto split: sum.splits dest: update_preserves_inv)
qed

text \<open>
  Claim C9. After every mastery update, creation or increment, of a store built by the
  service from no record, the stored row has \<open>mastery_level\<close> in \<open>[0, 1]\<close> and
  \<open>correct_attempts \<le> attempts_count\<close>; the invariant holds of the empty table and is
  preserved by every sequence of updates. An increment never stores a level above 1,
  whatever counts the row held before.
\<close>

theorem mastery_invariant:
  "table_inv Map.empty
   \<and> (\<forall>tbl cs tbl'. table_inv tbl \<longrightarrow> run_updates tbl cs = Inr tbl' \<longrightarrow> table_inv tbl')
   \<and> (\<forall>cs tbl k r. run_updates Map.empty cs = Inr tbl \<longrightarrow> tbl k = Some r \<longrightarrow>
         0 \<le> cm_mastery_level r \<and> cm_mastery_level r \<le> 1
         \<and> cm_correct_attempts r \<le> cm_attempts_count r)
   \<and> (\<forall>db now tbl u ch c b t tbl' old r.
         tbl (u, ch, c) = Some old \<longrightarrow> 0 \<le> cm_attempts_count old \<longrightarrow>
         updateConceptMastery db now tbl u ch c b t = Inr tbl' \<longrightarrow>
         tbl' (u, ch, c) = Some r \<longrightarrow> cm_mastery_level r \<le> 1)"
proof (intro conjI allI impI)
  show e: "table_inv Map.empty" by (simp add: table_inv_def)
  show "table_inv tbl'" if "table_inv tbl" "run_updates tbl cs = Inr tbl'" for tbl cs tbl'
    using that by (rule run_preserves_inv)
  show "cm_mastery_level r \<le> 1"
    if "tbl (u, ch, c) = Some old" "updateConceptMastery db now tbl u ch c b t = Inr tbl'"
      "tbl' (u, ch, c) = Some r"
    for db now tbl u ch c b t tbl' old r
    using update_result [OF that(2)] that(1,3) by auto
  fix cs tbl k r
  assume "run_updates Map.empty cs = Inr tbl" and k: "tbl k = Some r"
  then have "table_inv tbl" using e by (auto dest: run_preserves_inv)
  with k have "row_inv r" unfolding table_inv_def by (blast intro: ranI)
  then show "0 \<le> cm_mastery_level r" "cm_mastery_level r \<le> 1"
    "cm_correct_attempts r \<le> cm_attempts_count r"
    by (simp_all add: row_inv_def)
qed

theorem mastery_invariant_witness:
  "\<exists>tbl r. run_updates Map.empty example_calls = Inr tbl
      \<and> tbl (''u1'', ''ch1'', ''Integers'') = Some r
      \<and> 0 \<le> cm_mastery_level r \<and> cm_mastery_level r \<le> 1
      \<and> cm_correct_attempts r \<le> cm_attempts_count r"
proof -
  have "\<exists>tbl r. run_updates Map.empty example_calls = Inr tbl
          \<and> tbl (''u1'', ''ch1'', ''Integers'') = Some r"
    by (simp add: example_calls_def example_call_def updateConceptMastery_def
          select_single_def db_update_def db_insert_def Let_def)
  then obtain tbl r where r: "run_updates Map.empty example_calls = Inr tbl"
    and k: "tbl (''u1'', ''ch1'', ''Integers'') = Some r" by blast
  from mastery_invariant r k show ?thesis by blast
qed

subsection \<open>Recording a question attempt\<close>

text \<open>
  An attempt that carries a concept but no chapter id is recorded without error, and
  concept mastery stays untouched.
\<close>

theorem attempt_without_chapter_counterexample:
  "qa_concept (example_attempt None (Some ''Addition of fractions'')) = Some ''Addition of fractions''
   \<and> snd (recordQuestionAttempt all_ok ''2025-09-11T11:05:50Z'' empty_store
            (example_attempt None (Some ''Addition of fractions''))) = None
   \<and> question_attempts (fst (recordQuestionAttempt all_ok ''2025-09-11T11:05:50Z'' empty_store
            (example_attempt None (Some ''Addition of fractions''))))
       = [example_attempt None (Some ''Addition of fractions'')]
   \<and> concept_mastery (fst (recordQuestionAttempt all_ok ''2025-09-11T11:05:50Z'' empty_store
            (example_attempt None (Some ''Addition of fractions'')))) = Map.empty"
  by (simp add: recordQuestionAttempt_def example_attempt_def all_ok_def empty_store_def
        truthy_def push_def Let_def)

text \<open>
  Claim C5, as the code has it. A call of \<^verbatim>\<open>recordQuestionAttempt\<close> that returns
  without error has appended the attempt. When the attempt carries both a non-empty chapter
  id and a non-empty concept, exactly one mastery upsert took place: the row of the triple
  (user, chapter, concept) exists afterwards, its \<open>attempts_count\<close> is one more than before
  (1 for a new row), its \<open>correct_attempts\<close> grew by one exactly when the answer was
  correct, and no other row changed. Otherwise concept mastery is untouched.
\<close>

theorem recordQuestionAttempt_mastery:
  assumes "recordQuestionAttempt db now st attempt = (st', None)"
  shows "question_attempts st' = question_attempts st @ [attempt]
         \<and> (case (qa_chapter_id attempt, qa_concept attempt) of
              (Some ch, Some c) \<Rightarrow>
                if ch \<noteq> [] \<and> c \<noteq> [] then
                  (\<exists>row. concept_mastery st' (qa_user_id attempt, ch, c) = Some row
                     \<and> cm_attempts_count row
                         = (case concept_mastery st (qa_user_id attempt, ch, c) of
                              None \<Rightarrow> 1 | Some old \<Rightarrow> cm_attempts_count old + 1)
                     \<and> cm_correct_attempts row
                         = (case concept_mastery st (qa_user_id attempt, ch, c) of
                              None \<Rightarrow> 0 | Some old \<Rightarrow> cm_correct_attempts old)
                           + (if qa_is_correct attempt then 1 else 0))
                  \<and> (\<forall>k. k \<noteq> (qa_user_id attempt, ch, c) \<longrightarrow>
                        concept_mastery st' k = concept_mastery st k)
                else concept_mastery st' = concept_mastery st
            | _ \<Rightarrow> concept_mastery st' = concept_mastery st)"
proof (cases "truthy (qa_concept attempt) \<and> truthy (qa_chapter_id attempt)")
  case False
  with assms show ?thesis
    by (auto simp: recordQuestionAttempt_def truthy_def push_def Let_def
             split: if_splits option.splits)
next
  case True
  then obtain ch c where ch: "qa_chapter_id attempt = Some ch" "ch \<noteq> []"
    and c: "qa_concept attempt = Some c" "c \<noteq> []"
    by (auto simp: truthy_def split: option.splits)
  from assms True ch c obtain tbl where
    u: "updateConceptMastery (mastery_db db) now (concept_mastery st) (qa_user_id attempt) ch c
          (qa_is_correct attempt) (qa_time_taken_seconds attempt) = Inr tbl"
    and st': "st' = st\<lparr> question_attempts := push (question_attempts st) attempt,
                        concept_mastery := tbl \<rparr>"
    by (auto simp: recordQuestionAttempt_def Let_def split: if_splits sum.splits)
  note res = update_result [OF u]
  have m: "concept_mastery st' = tbl"
    and q: "question_attempts st' = question_attempts st @ [attempt]"
    by (simp_all add: st' push_def)
  show ?thesis
    using ch c by (auto simp: m q res split: option.splits)
qed

theorem recordQuestionAttempt_mastery_witness:
  "\<exists>st' row. recordQuestionAttempt all_ok ''2025-09-11T11:05:50Z'' empty_store
       (example_attempt (Some ''ch1'') (Some ''Addition of fractions'')) = (st', None)
     \<and> concept_mastery st' (''u1'', ''ch1'', ''Addition of fractions'') = Some row
     \<and> cm_attempts_count row = 1 \<and> cm_correct_attempts row = 1"
proof -
  have "\<exists>st'. recordQuestionAttempt all_ok ''2025-09-11T11:05:50Z'' empty_store
       (example_attempt (Some ''ch1'') (Some ''Addition of fractions'')) = (st', None)"
    by (simp add: recordQuestionAttempt_def example_attempt_def all_ok_def empty_store_def
        truthy_def push_def Let_def updateConceptMastery_def select_single_def db_insert_def)
  then obtain st' where r: "recordQuestionAttempt all_ok ''2025-09-11T11:05:50Z'' empty_store
       (example_attempt (Some ''ch1'') (Some ''Addition of fractions'')) = (st', None)" ..
  from recordQuestionAttempt_mastery [OF r] r show ?thesis
    by (auto simp: example_attempt_def empty_store_def)
qed

subsection \<open>The diagnostic analyzer\<close>

lemma map_fst_modify: "map fst (modify k f tbl) = map fst tbl"
  by (induction tbl) (auto simp: modify_def)

lemma map_of_modify:
  "map_of (modify k f tbl) x = (if x = k then map_option f (map_of tbl k) else map_of tbl x)"
  by (induction tbl) (auto simp: modify_def)

lemma map_fst_track:
  "map fst (track tbl k b)
     = (if \<not> inherited k \<and> map_of tbl k = None then map fst tbl @ [k] else map fst tbl)"
  by (simp add: track_def Let_def map_fst_modify push_def)

lemma distinct_track:
  "distinct (map fst tbl) \<Longrightarrow> distinct (map fst (track tbl k b))"
  by (auto simp: map_fst_track map_of_eq_None_iff)

lemma map_of_track:
  "map_of (track tbl k b) x =
     (if x = k \<and> \<not> inherited k
      then Some (bump b (case map_of tbl k of
                           None \<Rightarrow> \<lparr> sc_correct = 0, sc_total = 0 \<rparr> | Some s \<Rightarrow> s))
      else map_of tbl x)"
  by (cases "map_of tbl k")
     (auto simp: track_def Let_def map_of_modify push_def bump_def map_add_def
           split: option.splits)

lemma forEach_answer_zip:
  "fst (forEach_answer as i qs (ts, cs)) = foldl pair_step ts (zip as (drop i qs))"
proof (induction as arbitrary: i ts cs)
  case Nil
  then show ?case by simp
next
  case (Cons a rest)
  show ?case
  proof (cases "i < length qs")
    case True
    then have d: "drop i qs = qs ! i # drop (Suc i) qs"
      by (simp add: Cons_nth_drop_Suc)
    show ?thesis using True
      by (simp add: d Let_def Cons.IH pair_step_def)
  next
    case False
    then show ?thesis by (simp add: Cons.IH)
  qed
qed

lemma outcomes_snoc:
  "outcomes t (ps @ [p]) =
     (if dq_topic (snd p) = t then outcomes t ps @ [correct (fst p)] else outcomes t ps)"
  by (cases p) (simp add: outcomes_def)

lemma tallied_step:
  assumes "tallied tbl ps"
  shows "tallied (pair_step tbl p) (ps @ [p])"
proof -
  from assms have d: "distinct (map fst tbl)"
    and m: "\<And>t. map_of tbl t =
             (if inherited t \<or> outcomes t ps = [] then None
              else Some \<lparr> sc_correct = length (filter id (outcomes t ps)),
                          sc_total = length (outcomes t ps) \<rparr>)"
    by (simp_all add: tallied_def)
  have "distinct (map fst (pair_step tbl p))"
    using d by (simp add: pair_step_def distinct_track)
  moreover have "map_of (pair_step tbl p) t =
             (if inherited t \<or> outcomes t (ps @ [p]) = [] then None
              else Some \<lparr> sc_correct = length (filter id (outcomes t (ps @ [p]))),
                          sc_total = length (outcomes t (ps @ [p])) \<rparr>)" for t
    by (simp add: pair_step_def map_of_track outcomes_snoc m bump_def)
  ultimately show ?thesis by (simp add: tallied_def)
qed

lemma tallied_foldl: "tallied (foldl pair_step [] ps) ps"
proof (induction ps rule: rev_induct)
  case Nil
  then show ?case by (simp add: tallied_def outcomes_def)
next
  case (snoc p ps)
  then show ?case by (simp add: tallied_step)
qed

lemma set_object_entries: "set (object_entries tbl) = set tbl"
  by (auto simp: object_entries_def)

lemma distinct_object_entries:
  assumes "distinct (map fst tbl)"
  shows "distinct (map fst (object_entries tbl))"
proof -
  from assms have d: "distinct tbl" and i: "inj_on fst (set tbl)"
    by (simp_all add: distinct_map)
  from d have "distinct (object_entries tbl)"
    by (auto simp: object_entries_def)
  with i show ?thesis
    by (simp add: distinct_map set_object_entries)
qed

lemma foldl_classify:
  "foldl classify (S, W, G) tbl =
     (S @ map fst (filter (\<lambda>e. percentage_of (snd e) \<ge> 80) tbl),
      W @ map fst (filter (\<lambda>e. percentage_of (snd e) < 50) tbl),
      G @ map fst (filter (\<lambda>e. percentage_of (snd e) < 30) tbl))"
proof (induction tbl arbitrary: S W G)
  case Nil
  then show ?case by simp
next
  case (Cons e tbl)
  obtain t s where e: "e = (t, s)" by (cases e)
  have c: "classify (S, W, G) (t, s) =
             (if percentage_of s \<ge> 80 then S @ [t] else S,
              if percentage_of s < 50 then W @ [t] else W,
              if percentage_of s < 30 then G @ [t] else G)"
    by (auto simp: classify_def Let_def percentage_of_def push_def)
  show ?case
    by (simp add: e c Cons.IH)
qed

lemma distinct_map_fst_filter:
  "distinct (map fst tbl) \<Longrightarrow> distinct (map fst (filter P tbl))"
  by (induction tbl) auto

lemma set_selected:
  "set (map fst (filter (\<lambda>e. P (snd e)) tbl)) = {t. \<exists>s. (t, s) \<in> set tbl \<and> P s}"
  by (auto simp: image_iff)

lemma analyze_lists:
  "dr_strengths (analyzeDiagnosticResults recommend now_ms now_iso as qs)
     = map fst (filter (\<lambda>e. percentage_of (snd e) \<ge> 80)
         (object_entries (foldl pair_step [] (zip as qs))))"
  "dr_weaknesses (analyzeDiagnosticResults recommend now_ms now_iso as qs)
     = map fst (filter (\<lambda>e. percentage_of (snd e) < 50)
         (object_entries (foldl pair_step [] (zip as qs))))"
  "dr_gaps (analyzeDiagnosticResults recommend now_ms now_iso as qs)
     = map fst (filter (\<lambda>e. percentage_of (snd e) < 30)
         (object_entries (foldl pair_step [] (zip as qs))))"
  by (simp_all add: analyzeDiagnosticResults_def Let_def split_beta forEach_answer_zip
        foldl_classify)

lemma percentage_record:
  "percentage_of \<lparr> sc_correct = c, sc_total = n \<rparr> = 100 * real c / real n"
  by (simp add: percentage_of_def)

lemma selected_topics:
  "set (map fst (filter (\<lambda>e. P (percentage_of (snd e)))
          (object_entries (foldl pair_step [] (zip as qs)))))
     = {t. \<not> inherited t \<and> tested as qs t \<and> P (topic_accuracy as qs t)}"
proof -
  let ?T = "foldl pair_step [] (zip as qs)"
  have t: "tallied ?T (zip as qs)" by (rule tallied_foldl)
  then have d: "distinct (map fst ?T)" by (simp add: tallied_def)
  have o: "topic_outcomes as qs t = outcomes t (zip as qs)" for t
    by (simp add: topic_outcomes_def outcomes_def)
  have "(\<exists>s. map_of ?T t = Some s \<and> P (percentage_of s))
          = (\<not> inherited t \<and> tested as qs t \<and> P (topic_accuracy as qs t))" for t
    using t by (auto simp: tallied_def tested_def topic_accuracy_def o percentage_record)
  then have "(\<exists>s. (t, s) \<in> set (object_entries ?T) \<and> P (percentage_of s))
          = (\<not> inherited t \<and> tested as qs t \<and> P (topic_accuracy as qs t))" for t
    using d by (simp add: set_object_entries)
  then show ?thesis
    unfolding set_selected [of "\<lambda>s. P (percentage_of s)"] by simp
qed

lemma gaps_are_weaknesses:
  "set (dr_gaps (analyzeDiagnosticResults recommend now_ms now_iso as qs))
     \<subseteq> set (dr_weaknesses (analyzeDiagnosticResults recommend now_ms now_iso as qs))"
  unfolding analyze_lists
    selected_topics [of "\<lambda>p. p < 30"] selected_topics [of "\<lambda>p. p < 50"]
  by auto

lemma analyze_distinct:
  "distinct (dr_strengths (analyzeDiagnosticResults recommend now_ms now_iso as qs))"
  "distinct (dr_weaknesses (analyzeDiagnosticResults recommend now_ms now_iso as qs))"
  "distinct (dr_gaps (analyzeDiagnosticResults recommend now_ms now_iso as qs))"
proof -
  have "tallied (foldl pair_step [] (zip as qs)) (zip as qs)" by (rule tallied_foldl)
  then have "distinct (map fst (object_entries (foldl pair_step [] (zip as qs))))"
    by (simp add: tallied_def distinct_object_entries)
  then show
    "distinct (dr_strengths (analyzeDiagnosticResults recommend now_ms now_iso as qs))"
    "distinct (dr_weaknesses (analyzeDiagnosticResults recommend now_ms now_iso as qs))"
    "distinct (dr_gaps (analyzeDiagnosticResults recommend now_ms now_iso as qs))"
    unfolding analyze_lists by (simp_all add: distinct_map_fst_filter)
qed

lemma classification_examples:
  "dr_strengths (analyzeDiagnosticResults no_recommendations ''0'' ''t''
      (graded 9 1) ten_on_fractions) = [''Fractions'']"
  "dr_weaknesses (analyzeDiagnosticResults no_recommendations ''0'' ''t''
      (graded 2 8) ten_on_fractions) = [''Fractions'']"
  "dr_gaps (analyzeDiagnosticResults no_recommendations ''0'' ''t''
      (graded 2 8) ten_on_fractions) = [''Fractions'']"
  by code_simp+

text \<open>
  A topic answered half right has an accuracy below 60 and is not a strength, yet the
  analyzer does not list it as a weakness.
\<close>

theorem weakness_threshold_counterexample:
  "tested half_right two_on_fractions ''Fractions''
   \<and> topic_accuracy half_right two_on_fractions ''Fractions'' < 60
   \<and> ''Fractions'' \<notin> set (dr_strengths
         (analyzeDiagnosticResults no_recommendations ''0'' ''t'' half_right two_on_fractions))
   \<and> ''Fractions'' \<notin> set (dr_weaknesses
         (analyzeDiagnosticResults no_recommendations ''0'' ''t'' half_right two_on_fractions))"
proof -
  have "tested half_right two_on_fractions ''Fractions''"
    and "topic_accuracy half_right two_on_fractions ''Fractions'' < 60"
    by (simp_all add: tested_def topic_accuracy_def topic_outcomes_def half_right_def
          two_on_fractions_def example_answer_def example_question_def)
  moreover have
    "dr_strengths
       (analyzeDiagnosticResults no_recommendations ''0'' ''t'' half_right two_on_fractions) = []"
    "dr_weaknesses
       (analyzeDiagnosticResults no_recommendations ''0'' ''t'' half_right two_on_fractions) = []"
    by code_simp+
  ultimately show ?thesis by simp
qed

text \<open>
  Claim C1, as the code has it. For every list of outcomes and every question bank, matched
  by position, and every topic whose label is not a name that objects inherit: the topic is
  a strength exactly when it was tested with an accuracy of at least 80, a weakness exactly
  when its accuracy is below 50, and a gap exactly when its accuracy is below 30. Every gap
  is a weakness, and no list names a topic twice. Nine of ten right makes a strength; two
  of ten right makes a weakness and a gap.
\<close>

theorem classification_thresholds:
  assumes "\<not> inherited t"
  shows
  "(t \<in> set (dr_strengths (analyzeDiagnosticResults recommend now_ms now_iso as qs))
      \<longleftrightarrow> tested as qs t \<and> topic_accuracy as qs t \<ge> 80)
   \<and> (t \<in> set (dr_weaknesses (analyzeDiagnosticResults recommend now_ms now_iso as qs))
      \<longleftrightarrow> tested as qs t \<and> topic_accuracy as qs t < 50)
   \<and> (t \<in> set (dr_gaps (analyzeDiagnosticResults recommend now_ms now_iso as qs))
      \<longleftrightarrow> tested as qs t \<and> topic_accuracy as qs t < 30)
   \<and> set (dr_gaps (analyzeDiagnosticResults recommend now_ms now_iso as qs))
     \<subseteq> set (dr_weaknesses (analyzeDiagnosticResults recommend now_ms now_iso as qs))
   \<and> distinct (dr_strengths (analyzeDiagnosticResults recommend now_ms now_iso as qs))
   \<and> distinct (dr_weaknesses (analyzeDiagnosticResults recommend now_ms now_iso as qs))
   \<and> distinct (dr_gaps (analyzeDiagnosticResults recommend now_ms now_iso as qs))
   \<and> dr_strengths (analyzeDiagnosticResults no_recommendations ''0'' ''t''
          (graded 9 1) ten_on_fractions) = [''Fractions'']
   \<and> dr_weaknesses (analyzeDiagnosticResults no_recommendations ''0'' ''t''
          (graded 2 8) ten_on_fractions) = [''Fractions'']
   \<and> dr_gaps (analyzeDiagnosticResults no_recommendations ''0'' ''t''
          (graded 2 8) ten_on_fractions) = [''Fractions'']"
proof -
  have s: "t \<in> set (dr_strengths (analyzeDiagnosticResults recommend now_ms now_iso as qs))
      \<longleftrightarrow> tested as qs t \<and> topic_accuracy as qs t \<ge> 80"
    unfolding analyze_lists selected_topics [of "\<lambda>p. p \<ge> 80"] using assms by simp
  have w: "t \<in> set (dr_weaknesses (analyzeDiagnosticResults recommend now_ms now_iso as qs))
      \<longleftrightarrow> tested as qs t \<and> topic_accuracy as qs t < 50"
    unfolding analyze_lists selected_topics [of "\<lambda>p. p < 50"] using assms by simp
  have g: "t \<in> set (dr_gaps (analyzeDiagnosticResults recommend now_ms now_iso as qs))
      \<longleftrightarrow> tested as qs t \<and> topic_accuracy as qs t < 30"
    unfolding analyze_lists selected_topics [of "\<lambda>p. p < 30"] using assms by simp
  from s w g gaps_are_weaknesses [of recommend now_ms now_iso as qs]
    analyze_distinct [of recommend now_ms now_iso as qs] classification_examples
  show ?thesis by blast
qed

theorem classification_thresholds_witness:
  "\<not> inherited ''Geometry''
   \<and> ''Geometry'' \<in> set (dr_weaknesses (analyzeDiagnosticResults no_recommendations ''0'' ''t''
        (right_then_wrong ''diag_1'' ''diag_2'') algebra_then_geometry))
   \<and> ''Geometry'' \<in> set (dr_gaps (analyzeDiagnosticResults no_recommendations ''0'' ''t''
        (right_then_wrong ''diag_1'' ''diag_2'') algebra_then_geometry))
   \<and> ''Geometry'' \<notin> set (dr_strengths (analyzeDiagnosticResults no_recommendations ''0'' ''t''
        (right_then_wrong ''diag_1'' ''diag_2'') algebra_then_geometry))"
proof -
  have n: "\<not> inherited ''Geometry''"
    by (simp add: inherited_def object_prototype_names_def)
  have a: "tested (right_then_wrong ''diag_1'' ''diag_2'') algebra_then_geometry ''Geometry''"
    "topic_accuracy (right_then_wrong ''diag_1'' ''diag_2'') algebra_then_geometry ''Geometry''
       = 0"
    by (simp_all add: tested_def topic_accuracy_def topic_outcomes_def right_then_wrong_def
          algebra_then_geometry_def example_answer_def example_question_def)
  from classification_thresholds [OF n, of no_recommendations "''0''" "''t''"
         "right_then_wrong ''diag_1'' ''diag_2''" algebra_then_geometry] n a
  show ?thesis by simp
qed

lemma forEach_answer_cong:
  "map correct xs = map correct ys \<Longrightarrow>
     forEach_answer xs i qs tables = forEach_answer ys i qs tables"
proof (induction xs arbitrary: ys i tables)
  case Nil
  then show ?case by simp
next
  case (Cons x xs)
  then obtain y ys' where ys: "ys = y # ys'" "correct x = correct y"
    "map correct xs = map correct ys'"
    by (cases ys) auto
  obtain ts cs where t: "tables = (ts, cs)" by (cases tables)
  show ?case
    by (simp add: ys t Let_def Cons.IH [OF ys(3)])
qed

lemma score_cong:
  fixes xs ys :: "diagnostic_answer list"
  assumes "map correct xs = map correct ys"
  shows "length (filter correct xs) = length (filter correct ys)"
proof -
  have e: "length (filter correct zs) = length (filter id (map correct zs))"
    for zs :: "diagnostic_answer list"
    by (simp add: filter_map o_def)
  show ?thesis
    by (simp only: e assms)
qed

lemma same_but_questionId_correct:
  assumes "same_but_questionId xs ys"
  shows "map correct xs = map correct ys"
proof -
  from assms have "map snd (map (\<lambda>a. (answer a, correct a)) xs)
                     = map snd (map (\<lambda>a. (answer a, correct a)) ys)"
    by (simp only: same_but_questionId_def)
  then show ?thesis by (simp add: o_def)
qed

text \<open>
  Claim C10. The analyzer never reads \<^verbatim>\<open>questionId\<close>: two answer lists that differ
  only in these fields give the same result for every question bank. The i-th answer is
  paired with the i-th question: with a right answer followed by a wrong one, the bank in
  one order makes Algebra the strength and Geometry the weakness and gap, and the reversed
  bank makes it the other way round.
\<close>

theorem questionId_never_read:
  "(\<forall>xs ys qs. same_but_questionId xs ys \<longrightarrow>
       analyzeDiagnosticResults recommend now_ms now_iso xs qs
         = analyzeDiagnosticResults recommend now_ms now_iso ys qs)
   \<and> dr_strengths (analyzeDiagnosticResults no_recommendations ''0'' ''t''
          (right_then_wrong ''diag_1'' ''diag_2'') algebra_then_geometry) = [''Algebra'']
   \<and> dr_weaknesses (analyzeDiagnosticResults no_recommendations ''0'' ''t''
          (right_then_wrong ''diag_1'' ''diag_2'') algebra_then_geometry) = [''Geometry'']
   \<and> dr_gaps (analyzeDiagnosticResults no_recommendations ''0'' ''t''
          (right_then_wrong ''diag_1'' ''diag_2'') algebra_then_geometry) = [''Geometry'']
   \<and> dr_strengths (analyzeDiagnosticResults no_recommendations ''0'' ''t''
          (right_then_wrong ''diag_1'' ''diag_2'') (rev algebra_then_geometry)) = [''Geometry'']
   \<and> dr_weaknesses (analyzeDiagnosticResults no_recommendations ''0'' ''t''
          (right_then_wrong ''diag_1'' ''diag_2'') (rev algebra_then_geometry)) = [''Algebra'']
   \<and> dr_gaps (analyzeDiagnosticResults no_recommendations ''0'' ''t''
          (right_then_wrong ''diag_1'' ''diag_2'') (rev algebra_then_geometry)) = [''Algebra'']"
proof -
  have "analyzeDiagnosticResults recommend now_ms now_iso xs qs
         = analyzeDiagnosticResults recommend now_ms now_iso ys qs"
    if "same_but_questionId xs ys" for xs ys qs
  proof -
    from that have c: "map correct xs = map correct ys"
      by (rule same_but_questionId_correct)
    show ?thesis
      unfolding analyzeDiagnosticResults_def
      by (simp only: forEach_answer_cong [OF c] score_cong [OF c])
  qed
  moreover have
    "dr_strengths (analyzeDiagnosticResults no_recommendations ''0'' ''t''
          (right_then_wrong ''diag_1'' ''diag_2'') algebra_then_geometry) = [''Algebra'']"
    "dr_weaknesses (analyzeDiagnosticResults no_recommendations ''0'' ''t''
          (right_then_wrong ''diag_1'' ''diag_2'') algebra_then_geometry) = [''Geometry'']"
    "dr_gaps (analyzeDiagnosticResults no_recommendations ''0'' ''t''
          (right_then_wrong ''diag_1'' ''diag_2'') algebra_then_geometry) = [''Geometry'']"
    "dr_strengths (analyzeDiagnosticResults no_recommendations ''0'' ''t''
          (right_then_wrong ''diag_1'' ''diag_2'') (rev algebra_then_geometry)) = [''Geometry'']"
    "dr_weaknesses (analyzeDiagnosticResults no_recommendations ''0'' ''t''
          (right_then_wrong ''diag_1'' ''diag_2'') (rev algebra_then_geometry)) = [''Algebra'']"
    "dr_gaps (analyzeDiagnosticResults no_recommendations ''0'' ''t''
          (right_then_wrong ''diag_1'' ''diag_2'') (rev algebra_then_geometry)) = [''Algebra'']"
    by code_simp+
  ultimately show ?thesis by blast
qed

theorem questionId_never_read_witness:
  "same_but_questionId (right_then_wrong ''diag_1'' ''diag_2'') (right_then_wrong ''diag_2'' ''x'')
   \<and> right_then_wrong ''diag_1'' ''diag_2'' \<noteq> right_then_wrong ''diag_2'' ''x''
   \<and> analyzeDiagnosticResults no_recommendations ''0'' ''t''
        (right_then_wrong ''diag_1'' ''diag_2'') algebra_then_geometry
      = analyzeDiagnosticResults no_recommendations ''0'' ''t''
        (right_then_wrong ''diag_2'' ''x'') algebra_then_geometry"
proof -
  have s: "same_but_questionId (right_then_wrong ''diag_1'' ''diag_2'')
             (right_then_wrong ''diag_2'' ''x'')"
    by (simp add: same_but_questionId_def right_then_wrong_def example_answer_def)
  have n: "right_then_wrong ''diag_1'' ''diag_2'' \<noteq> right_then_wrong ''diag_2'' ''x''"
    by (simp add: right_then_wrong_def example_answer_def)
  from questionId_never_read [of no_recommendations "''0''" "''t''"] s n
  show ?thesis by blast
qed

subsection \<open>Recommendations of the diagnostic analyzer\<close>












subsection \<open>The progress report\<close>

lemma foldl_add_sum:
  fixes z :: "'a::comm_monoid_add"
  shows "foldl (\<lambda>sum x. sum + f x) z xs = z + sum_list (map f xs)"
  by (induction xs arbitrary: z) (simp_all add: add.assoc)

lemma report_fields:
  "\<exists>report.
     generateProgressReport True ai sd ed u rt ch attempts sessions mastery = Inr report
     \<and> pr_accuracy_percentage report = accuracyPercentage attempts
     \<and> pr_time_spent_minutes report = totalTimeSpent sessions
     \<and> pr_questions_attempted report = totalAttempts attempts
     \<and> pr_overall_progress report
         = calculateOverallProgress (case mastery of None \<Rightarrow> [] | Some rows \<Rightarrow> rows)"
  by (simp add: generateProgressReport_def Let_def)

lemma metrics_no_rows:
  "no_rows attempts \<Longrightarrow> totalAttempts attempts = 0"
  "no_rows attempts \<Longrightarrow> accuracyPercentage attempts = 0"
  "no_rows sessions \<Longrightarrow> totalTimeSpent sessions = 0"
  by (auto simp: no_rows_def totalAttempts_def accuracyPercentage_def totalTimeSpent_def
        null_or_zero_def or_zero_def split: option.splits)

lemma accuracy_rows:
  "rows \<noteq> [] \<Longrightarrow>
     accuracyPercentage (Some rows) = 100 * real (length (filter qa_is_correct rows)) / real (length rows)"
  by (simp add: accuracyPercentage_def totalAttempts_def correctAttempts_def
        null_or_zero_def or_zero_def)

lemma time_rows:
  "totalTimeSpent (Some ss)
     = (\<Sum>s\<leftarrow>ss. case ss_duration_minutes s of None \<Rightarrow> 0 | Some d \<Rightarrow> d)"
proof -
  have "null_or_zero x = (case x of None \<Rightarrow> 0 | Some d \<Rightarrow> d)" for x :: "int option"
    by (simp add: null_or_zero_def or_zero_def split: option.splits)
  then show ?thesis
    by (simp add: totalTimeSpent_def foldl_add_sum null_or_zero_def or_zero_def)
qed

text \<open>
  Claim C7. A progress report built over a window without question attempts and without
  study sessions has \<open>accuracy_percentage = 0\<close>, \<open>time_spent_minutes = 0\<close> and no
  attempted question, and the aggregation raises nothing: the report is returned once the
  store accepts it. In general the accuracy is \<open>100 * correct / total\<close> when there is an
  attempt, and the time spent is the sum of the sessions' \<open>duration_minutes\<close> (a
  \<^verbatim>\<open>null\<close> duration counting as 0); the report carries both values.
\<close>

theorem report_metrics:
  "(no_rows attempts \<and> no_rows sessions \<longrightarrow>
      (\<exists>report.
         generateProgressReport True ai sd ed u rt ch attempts sessions mastery = Inr report
         \<and> pr_accuracy_percentage report = 0
         \<and> pr_time_spent_minutes report = 0
         \<and> pr_questions_attempted report = 0))
   \<and> (rows \<noteq> [] \<longrightarrow>
        accuracyPercentage (Some rows)
          = 100 * real (length (filter qa_is_correct rows)) / real (length rows))
   \<and> accuracyPercentage None = 0
   \<and> totalTimeSpent (Some ss)
        = (\<Sum>s\<leftarrow>ss. case ss_duration_minutes s of None \<Rightarrow> 0 | Some d \<Rightarrow> d)
   \<and> totalTimeSpent None = 0
   \<and> (\<exists>report.
         generateProgressReport True ai sd ed u rt ch attempts sessions mastery = Inr report
         \<and> pr_accuracy_percentage report = accuracyPercentage attempts
         \<and> pr_time_spent_minutes report = totalTimeSpent sessions)"
proof (intro conjI impI)
  assume n: "no_rows attempts \<and> no_rows sessions"
  from report_fields [of ai sd ed u rt ch attempts sessions mastery]
  obtain report where
    "generateProgressReport True ai sd ed u rt ch attempts sessions mastery = Inr report"
    "pr_accuracy_percentage report = accuracyPercentage attempts"
    "pr_time_spent_minutes report = totalTimeSpent sessions"
    "pr_questions_attempted report = totalAttempts attempts"
    by blast
  with n show "\<exists>report.
         generateProgressReport True ai sd ed u rt ch attempts sessions mastery = Inr report
         \<and> pr_accuracy_percentage report = 0
         \<and> pr_time_spent_minutes report = 0
         \<and> pr_questions_attempted report = 0"
    by (auto simp: metrics_no_rows)
next
  assume "rows \<noteq> []"
  then show "accuracyPercentage (Some rows)
          = 100 * real (length (filter qa_is_correct rows)) / real (length rows)"
    by (rule accuracy_rows)
next
  show "accuracyPercentage None = 0"
    by (simp add: metrics_no_rows no_rows_def)
next
  show "totalTimeSpent (Some ss)
        = (\<Sum>s\<leftarrow>ss. case ss_duration_minutes s of None \<Rightarrow> 0 | Some d \<Rightarrow> d)"
    by (rule time_rows)
next
  show "totalTimeSpent None = 0"
    by (simp add: metrics_no_rows no_rows_def)
next
  from report_fields [of ai sd ed u rt ch attempts sessions mastery]
  show "\<exists>report.
         generateProgressReport True ai sd ed u rt ch attempts sessions mastery = Inr report
         \<and> pr_accuracy_percentage report = accuracyPercentage attempts
         \<and> pr_time_spent_minutes report = totalTimeSpent sessions"
    by blast
qed

theorem report_metrics_witness:
  "no_rows (Some ([] :: QuestionAttempt list)) \<and> no_rows (Some ([] :: StudySession list))
   \<and> (\<exists>report.
         generateProgressReport True ''Keep going.'' ''2025-09-04'' ''2025-09-11'' ''u1'' weekly
           None (Some []) (Some []) (Some []) = Inr report
         \<and> pr_accuracy_percentage report = 0
         \<and> pr_time_spent_minutes report = 0
         \<and> pr_questions_attempted report = 0)"
proof -
  have n: "no_rows (Some ([] :: QuestionAttempt list))" "no_rows (Some ([] :: StudySession list))"
    by (simp_all add: no_rows_def)
  from report_metrics [of "Some []" "Some []" "''Keep going.''" "''2025-09-04''"
         "''2025-09-11''" "''u1''" weekly None "Some []"] n
  show ?thesis by simp
qed

text \<open>
  Claim C8. The overall progress of a list of mastery records is the arithmetic mean of
  their \<open>mastery_level\<close> values times 100, and 0 for the empty list; this is the
  \<open>overall_progress\<close> of the report. Levels 0.25, 1 and 0.7 give 65.
\<close>

theorem overall_progress_mean:
  "calculateOverallProgress masteryData
     = (if masteryData = [] then 0 else mean (map cm_mastery_level masteryData) * 100)
   \<and> (\<exists>report.
         generateProgressReport True ai sd ed u rt ch attempts sessions (Some masteryData)
           = Inr report
         \<and> pr_overall_progress report
             = (if masteryData = [] then 0 else mean (map cm_mastery_level masteryData) * 100))
   \<and> calculateOverallProgress
         [example_mastery ''Fractions'' 0.25, example_mastery ''Integers'' 1,
          example_mastery ''Decimals'' 0.7] = 65"
proof -
  have c: "calculateOverallProgress masteryData
     = (if masteryData = [] then 0 else mean (map cm_mastery_level masteryData) * 100)"
    by (simp add: calculateOverallProgress_def Let_def foldl_add_sum mean_def)
  have e: "calculateOverallProgress
         [example_mastery ''Fractions'' 0.25, example_mastery ''Integers'' 1,
          example_mastery ''Decimals'' 0.7] = 65"
    by (simp add: calculateOverallProgress_def Let_def example_mastery_def)
  from report_fields [of ai sd ed u rt ch attempts sessions "Some masteryData"] c e
  show ?thesis by auto
qed

end
